theory Spec2Isabelle
  imports Complex_Main
begin

section \<open>Data model\<close>

text \<open>
  The validator lives in one module: \<open>parseTypeString\<close>, \<open>validateValue\<close>,
  \<open>createEnvValidator\<close>, \<open>defineEnv\<close> and \<open>validateEnv\<close>, over the types of
  \<open>types.ts\<close>.

  \<^item> A schema is an object from variable names to type descriptors. Both validators read it
    only through \<open>Object.entries(schema)\<close>, so it is modelled as the list of its entries in
    iteration order; an object has each key once, which theorems that need it assume as
    \<open>distinct (map fst schema)\<close>.
  \<^item> The environment (\<open>NodeJS.ProcessEnv\<close>) maps a name to a string or to \<open>undefined\<close>:
    a partial map. A lookup \<open>env[key]\<close> of a name that is not there is \<open>undefined\<close>;
    the type gives every lookup a string or \<open>undefined\<close>, so the names an object
    inherits from its prototype (\<open>toString\<close>, \<open>__proto__\<close>) are not keys of the model.
  \<^item> Strings are lists of 8-bit characters, read as the code units U+0000 to U+00FF.
  \<^item> The value object \<open>values\<close> is a partial map to values; a key assigned \<open>undefined\<close> is
    in the map, bound to \<open>VUndefined\<close>, and a key never assigned is not.
\<close>

type_synonym EnvSchema = "(string \<times> string) list"

type_synonym ProcessEnv = "string \<rightharpoonup> string"

text \<open>
  A number is kept as the mathematical value of the literal it was read from, before the
  rounding to a binary64 float (which leaves the integers and the zero of the theorems
  below as they are), or one of the three special values.
\<close>

datatype jsnum = NaN | Infinity | NegInfinity | Finite rat

text \<open>The values that \<open>validateValue\<close> puts into \<open>parsed\<close>; \<open>'j\<close> is what \<open>JSON.parse\<close> returns.\<close>

datatype 'j jsvalue = VUndefined | VString string | VNumber jsnum | VBoolean bool | VJson 'j

record ValidationError =
  key :: string
  expected :: string
  received :: "string option"
  reason :: string

text \<open>The object \<open>{ valid, parsed, reason? }\<close> that \<open>validateValue\<close> returns.\<close>

record 'j Validation =
  v_valid :: bool
  v_parsed :: "'j jsvalue"
  v_reason :: "string option"

record 'j ValidationResult =
  valid :: bool
  errors :: "ValidationError list"
  "values" :: "string \<rightharpoonup> 'j jsvalue"

text \<open>
  The callback \<open>onError\<close> receives the error list; it returns (\<open>None\<close>) or throws something
  of its own (\<open>Some x\<close>).
\<close>

record 'x ValidatorOptions =
  throwOnError :: "bool option"
  env :: "ProcessEnv option"
  onError :: "(ValidationError list \<Rightarrow> 'x option) option"

text \<open>What a call of \<open>createEnvValidator\<close> can throw: its own \<open>Error\<close>, or what the callback threw.\<close>

datatype 'x thrown = Error string | CallbackThrew 'x

text \<open>
  The outcome of \<open>createEnvValidator\<close>: the calls of \<open>onError\<close> it made, in order, each with
  its argument, and then either what it threw or the object it returned.
\<close>

record ('x, 'j) Outcome =
  calls :: "ValidationError list list"
  result :: "'x thrown + (string \<rightharpoonup> 'j jsvalue)"

section \<open>The language's own functions\<close>

definition dquote :: string where
  "dquote = [CHR 0x22]"

definition newline :: string where
  "newline = [CHR 0x0A]"

text \<open>The bullet U+2022 of the error message, as its three UTF-8 bytes.\<close>

definition bullet :: string where
  "bullet = [CHR 0xE2, CHR 0x80, CHR 0xA2]"

text \<open>\<open>!value\<close> on a string or \<open>undefined\<close>: true for \<open>undefined\<close> and for the empty string.\<close>

definition falsy :: "string option \<Rightarrow> bool" where
  "falsy value = (value = None \<or> value = Some [])"

text \<open>\<open>xs.join(sep)\<close>.\<close>

fun join :: "string \<Rightarrow> string list \<Rightarrow> string" where
  "join sep [] = []"
| "join sep [x] = x"
| "join sep (x # y # ys) = x @ sep @ join sep (y # ys)"

text \<open>
  \<open>toLowerCase\<close> on the code units up to U+00FF: the letters A to Z and the Latin-1
  capitals U+00C0 to U+00DE (but the multiplication sign U+00D7) move up by 32.
\<close>

definition toLowerCase_char :: "char \<Rightarrow> char" where
  "toLowerCase_char c =
     (let n = (of_char c :: nat)
      in if (65 \<le> n \<and> n \<le> 90) \<or> (192 \<le> n \<and> n \<le> 222 \<and> n \<noteq> 215)
         then char_of (n + 32) else c)"

definition toLowerCase :: "string \<Rightarrow> string" where
  "toLowerCase s = map toLowerCase_char s"

subsection \<open>Number applied to a string\<close>

text \<open>
  \<open>Number(value)\<close> on a string is the language's StringToNumber: the string is read by
  the grammar \<open>StringNumericLiteral\<close>, and what the grammar does not derive is \<open>NaN\<close>.
  White space on both ends is dropped and nothing but white space is \<open>0\<close>; a literal is a
  binary, octal or hexadecimal integer (\<open>0b\<close>, \<open>0o\<close>, \<open>0x\<close>, no sign), or a decimal
  literal with an optional sign: \<open>Infinity\<close>, or digits with an optional fraction and an
  optional exponent. Of the white space of the grammar the code units up to U+00FF are
  here: tab, line feed, vertical tab, form feed, carriage return, space and no-break
  space.
\<close>

definition isStrWhiteSpaceChar :: "char \<Rightarrow> bool" where
  "isStrWhiteSpaceChar c =
     (c \<in> set [CHR 0x09, CHR 0x0A, CHR 0x0B, CHR 0x0C, CHR 0x0D, CHR 0x20, CHR 0xA0])"

definition trimString :: "string \<Rightarrow> string" where
  "trimString s = rev (dropWhile isStrWhiteSpaceChar (rev (dropWhile isStrWhiteSpaceChar s)))"

definition digitValue :: "char \<Rightarrow> nat option" where
  "digitValue c =
     map_of [(CHR ''0'', 0), (CHR ''1'', 1), (CHR ''2'', 2), (CHR ''3'', 3), (CHR ''4'', 4),
             (CHR ''5'', 5), (CHR ''6'', 6), (CHR ''7'', 7), (CHR ''8'', 8), (CHR ''9'', 9),
             (CHR ''a'', 10), (CHR ''b'', 11), (CHR ''c'', 12), (CHR ''d'', 13),
             (CHR ''e'', 14), (CHR ''f'', 15), (CHR ''A'', 10), (CHR ''B'', 11),
             (CHR ''C'', 12), (CHR ''D'', 13), (CHR ''E'', 14), (CHR ''F'', 15)] c"

definition isDigitOfBase :: "nat \<Rightarrow> char \<Rightarrow> bool" where
  "isDigitOfBase b c = (case digitValue c of None \<Rightarrow> False | Some d \<Rightarrow> d < b)"

definition digitsValue :: "nat \<Rightarrow> string \<Rightarrow> nat" where
  "digitsValue b ds = foldl (\<lambda>acc c. acc * b + (case digitValue c of None \<Rightarrow> 0 | Some d \<Rightarrow> d)) 0 ds"

text \<open>\<open>SignedInteger\<close>: digits with an optional sign.\<close>

definition parseSignedInteger :: "string \<Rightarrow> int option" where
  "parseSignedInteger s =
     (let ds = (if s \<noteq> [] \<and> (hd s = CHR ''+'' \<or> hd s = CHR ''-'') then tl s else s)
      in if ds = [] \<or> \<not> list_all (isDigitOfBase 10) ds then None
         else if s \<noteq> [] \<and> hd s = CHR ''-'' then Some (- int (digitsValue 10 ds))
         else Some (int (digitsValue 10 ds)))"

text \<open>An optional \<open>ExponentPart\<close> that must use up the rest of the literal.\<close>

definition parseExponentPart :: "string \<Rightarrow> int option" where
  "parseExponentPart s =
     (case s of
        [] \<Rightarrow> Some 0
      | c # r \<Rightarrow> if c = CHR ''e'' \<or> c = CHR ''E'' then parseSignedInteger r else None)"

definition scale10 :: "nat \<Rightarrow> int \<Rightarrow> rat" where
  "scale10 m k = (if 0 \<le> k then of_nat m * 10 ^ nat k else of_nat m / 10 ^ nat (- k))"

definition parseStrUnsignedDecimalLiteral :: "string \<Rightarrow> jsnum" where
  "parseStrUnsignedDecimalLiteral s =
     (if s = ''Infinity'' then Infinity
      else
        let ip = takeWhile (isDigitOfBase 10) s;
            r1 = dropWhile (isDigitOfBase 10) s;
            hasDot = (r1 \<noteq> [] \<and> hd r1 = CHR ''.'');
            fp = (if hasDot then takeWhile (isDigitOfBase 10) (tl r1) else []);
            r2 = (if hasDot then dropWhile (isDigitOfBase 10) (tl r1) else r1)
        in if ip = [] \<and> fp = [] then NaN
           else (case parseExponentPart r2 of
                   None \<Rightarrow> NaN
                 | Some e \<Rightarrow> Finite (scale10 (digitsValue 10 (ip @ fp)) (e - int (length fp)))))"

definition negate :: "jsnum \<Rightarrow> jsnum" where
  "negate n = (case n of NaN \<Rightarrow> NaN | Infinity \<Rightarrow> NegInfinity
                | NegInfinity \<Rightarrow> Infinity | Finite r \<Rightarrow> Finite (- r))"

definition parseStrDecimalLiteral :: "string \<Rightarrow> jsnum" where
  "parseStrDecimalLiteral s =
     (case s of
        [] \<Rightarrow> NaN
      | c # r \<Rightarrow> if c = CHR ''+'' then parseStrUnsignedDecimalLiteral r
                else if c = CHR ''-'' then negate (parseStrUnsignedDecimalLiteral r)
                else parseStrUnsignedDecimalLiteral s)"

definition radixOfPrefix :: "char \<Rightarrow> nat option" where
  "radixOfPrefix c =
     map_of [(CHR ''b'', 2), (CHR ''B'', 2), (CHR ''o'', 8), (CHR ''O'', 8),
             (CHR ''x'', 16), (CHR ''X'', 16)] c"

definition parseStrNumericLiteral :: "string \<Rightarrow> jsnum" where
  "parseStrNumericLiteral s =
     (case s of
        z # p # ds \<Rightarrow>
          (case (if z = CHR ''0'' then radixOfPrefix p else None) of
             Some b \<Rightarrow> if ds \<noteq> [] \<and> list_all (isDigitOfBase b) ds
                       then Finite (of_nat (digitsValue b ds)) else NaN
           | None \<Rightarrow> parseStrDecimalLiteral s)
      | _ \<Rightarrow> parseStrDecimalLiteral s)"

definition Number :: "string \<Rightarrow> jsnum" where
  "Number s = (let t = trimString s in if t = [] then Finite 0 else parseStrNumericLiteral t)"

definition isNaN :: "jsnum \<Rightarrow> bool" where
  "isNaN n = (n = NaN)"

section \<open>The validator\<close>

text \<open>
  \<open>parseTypeString\<close>: \<open>typeStr.endsWith('?')\<close>, and \<open>typeStr.slice(0, -1)\<close> when it does.
  The result \<open>{ type, optional }\<close> is a pair.
\<close>

definition endsWith :: "string \<Rightarrow> char \<Rightarrow> bool" where
  "endsWith s c = (s \<noteq> [] \<and> last s = c)"

definition parseTypeString :: "string \<Rightarrow> string \<times> bool" where
  "parseTypeString typeStr =
     (let isOptional = endsWith typeStr (CHR ''?'');
          baseType = (if isOptional then butlast typeStr else typeStr)
      in (baseType, isOptional))"

text \<open>
  \<open>validateValue\<close>. \<open>JSON.parse\<close> is a parameter: a function from the text to the parsed
  document, \<open>None\<close> where it throws (the \<open>catch\<close> of the source takes whatever it throws).
\<close>

definition validateValue ::
  "(string \<Rightarrow> 'j option) \<Rightarrow> string option \<Rightarrow> string \<Rightarrow> 'j Validation" where
  "validateValue JSON_parse value expectedType =
     (case value of
        None \<Rightarrow> \<lparr>v_valid = False, v_parsed = VUndefined,
                 v_reason = Some ''Value is empty or undefined''\<rparr>
      | Some v \<Rightarrow>
          if v = [] then
            \<lparr>v_valid = False, v_parsed = VUndefined,
             v_reason = Some ''Value is empty or undefined''\<rparr>
          else if expectedType = ''string'' then
            \<lparr>v_valid = True, v_parsed = VString v, v_reason = None\<rparr>
          else if expectedType = ''number'' then
            (let num = Number v
             in if isNaN num then
                  \<lparr>v_valid = False, v_parsed = VUndefined,
                   v_reason = Some (dquote @ v @ dquote @ '' is not a valid number'')\<rparr>
                else \<lparr>v_valid = True, v_parsed = VNumber num, v_reason = None\<rparr>)
          else if expectedType = ''boolean'' then
            (if toLowerCase v = ''true'' \<or> v = ''1'' then
               \<lparr>v_valid = True, v_parsed = VBoolean True, v_reason = None\<rparr>
             else if toLowerCase v = ''false'' \<or> v = ''0'' then
               \<lparr>v_valid = True, v_parsed = VBoolean False, v_reason = None\<rparr>
             else
               \<lparr>v_valid = False, v_parsed = VUndefined,
                v_reason = Some (dquote @ v @ dquote @
                  '' is not a valid boolean (use 'true', 'false', '1', or '0')'')\<rparr>)
          else if expectedType = ''json'' then
            (case JSON_parse v of
               Some parsed \<Rightarrow> \<lparr>v_valid = True, v_parsed = VJson parsed, v_reason = None\<rparr>
             | None \<Rightarrow>
                 \<lparr>v_valid = False, v_parsed = VUndefined,
                  v_reason = Some (dquote @ v @ dquote @ '' is not valid JSON'')\<rparr>)
          else
            \<lparr>v_valid = False, v_parsed = VUndefined,
             v_reason = Some (''Unknown type: '' @ expectedType)\<rparr>)"

text \<open>\<open>validation.reason || 'Validation failed'\<close>: the default stands in for \<open>undefined\<close> and for the empty string.\<close>

definition reasonOrDefault :: "string option \<Rightarrow> string" where
  "reasonOrDefault r = (if falsy r then ''Validation failed'' else the r)"

text \<open>
  The loop of \<open>createEnvValidator\<close> over \<open>Object.entries(schema)\<close>, on the two locals
  \<open>errors\<close> and \<open>values\<close>; each \<open>continue\<close> and the end of the body go on with the rest.
  The field names of the records are constants, so the locals \<open>key\<close>, \<open>env\<close>, \<open>errors\<close>
  and \<open>values\<close> are written \<open>k\<close>, \<open>penv\<close>, \<open>errs\<close> and \<open>vals\<close> here.
\<close>

fun createEnvValidator_loop ::
  "(string \<Rightarrow> 'j option) \<Rightarrow> ProcessEnv \<Rightarrow> EnvSchema \<Rightarrow>
   ValidationError list \<times> (string \<rightharpoonup> 'j jsvalue) \<Rightarrow>
   ValidationError list \<times> (string \<rightharpoonup> 'j jsvalue)" where
  "createEnvValidator_loop JSON_parse penv [] (errs, vals) = (errs, vals)"
| "createEnvValidator_loop JSON_parse penv ((k, typeStr) # rest) (errs, vals) =
     (let (type, optional) = parseTypeString typeStr;
          value = penv k
      in if falsy value \<and> \<not> optional then
           createEnvValidator_loop JSON_parse penv rest
             (errs @ [\<lparr>key = k, expected = typeStr, received = value,
                 reason = ''Required environment variable '' @ dquote @ k @ dquote @
                   '' is missing''\<rparr>], vals)
         else if falsy value \<and> optional then
           createEnvValidator_loop JSON_parse penv rest (errs, vals(k \<mapsto> VUndefined))
         else
           let validation = validateValue JSON_parse value type
           in if \<not> v_valid validation then
                createEnvValidator_loop JSON_parse penv rest
                  (errs @ [\<lparr>key = k, expected = typeStr, received = value,
                      reason = reasonOrDefault (v_reason validation)\<rparr>], vals)
              else
                createEnvValidator_loop JSON_parse penv rest
                  (errs, vals(k \<mapsto> v_parsed validation)))"

text \<open>
  \<open>createEnvValidator\<close>. \<open>process_env\<close> is \<open>process.env\<close> at the call, the default of the
  option \<open>env\<close>; \<open>throwOnError\<close> defaults to true.
\<close>

definition createEnvValidator ::
  "ProcessEnv \<Rightarrow> (string \<Rightarrow> 'j option) \<Rightarrow> EnvSchema \<Rightarrow> 'x ValidatorOptions \<Rightarrow>
   ('x, 'j) Outcome" where
  "createEnvValidator process_env JSON_parse schema options =
     (let throwOnError = (case throwOnError options of None \<Rightarrow> True | Some b \<Rightarrow> b);
          env = (case env options of None \<Rightarrow> process_env | Some e \<Rightarrow> e);
          (errors, values) = createEnvValidator_loop JSON_parse env schema ([], Map.empty)
      in if length errors > 0 then
           let errorMessage =
                 join newline
                   (map (\<lambda>e. ''  '' @ bullet @ '' '' @ key e @ '': '' @ reason e) errors);
               fullMessage = ''Environment validation failed:'' @ newline @ errorMessage
           in (case onError options of
                 Some callback \<Rightarrow>
                   (case callback errors of
                      Some x \<Rightarrow> \<lparr>calls = [errors], result = Inl (CallbackThrew x)\<rparr>
                    | None \<Rightarrow>
                        if throwOnError
                        then \<lparr>calls = [errors], result = Inl (Error fullMessage)\<rparr>
                        else \<lparr>calls = [errors], result = Inr values\<rparr>)
               | None \<Rightarrow>
                   if throwOnError then \<lparr>calls = [], result = Inl (Error fullMessage)\<rparr>
                   else \<lparr>calls = [], result = Inr values\<rparr>)
         else \<lparr>calls = [], result = Inr values\<rparr>)"

definition defineEnv ::
  "ProcessEnv \<Rightarrow> (string \<Rightarrow> 'j option) \<Rightarrow> EnvSchema \<Rightarrow> 'x ValidatorOptions \<Rightarrow>
   ('x, 'j) Outcome" where
  "defineEnv process_env JSON_parse schema options =
     createEnvValidator process_env JSON_parse schema options"

text \<open>The loop of \<open>validateEnv\<close>, written out a second time in the source.\<close>

fun validateEnv_loop ::
  "(string \<Rightarrow> 'j option) \<Rightarrow> ProcessEnv \<Rightarrow> EnvSchema \<Rightarrow>
   ValidationError list \<times> (string \<rightharpoonup> 'j jsvalue) \<Rightarrow>
   ValidationError list \<times> (string \<rightharpoonup> 'j jsvalue)" where
  "validateEnv_loop JSON_parse penv [] (errs, vals) = (errs, vals)"
| "validateEnv_loop JSON_parse penv ((k, typeStr) # rest) (errs, vals) =
     (let (type, optional) = parseTypeString typeStr;
          value = penv k
      in if falsy value \<and> \<not> optional then
           validateEnv_loop JSON_parse penv rest
             (errs @ [\<lparr>key = k, expected = typeStr, received = value,
                 reason = ''Required: '' @ dquote @ k @ dquote @ '' is missing''\<rparr>], vals)
         else if falsy value \<and> optional then
           validateEnv_loop JSON_parse penv rest (errs, vals(k \<mapsto> VUndefined))
         else
           let validation = validateValue JSON_parse value type
           in if \<not> v_valid validation then
                validateEnv_loop JSON_parse penv rest
                  (errs @ [\<lparr>key = k, expected = typeStr, received = value,
                      reason = reasonOrDefault (v_reason validation)\<rparr>], vals)
              else
                validateEnv_loop JSON_parse penv rest
                  (errs, vals(k \<mapsto> v_parsed validation)))"

text \<open>\<open>validateEnv\<close>; its second argument defaults to \<open>process.env\<close>.\<close>

definition validateEnv ::
  "ProcessEnv \<Rightarrow> (string \<Rightarrow> 'j option) \<Rightarrow> EnvSchema \<Rightarrow> ProcessEnv option \<Rightarrow>
   'j ValidationResult" where
  "validateEnv process_env JSON_parse schema env_arg =
     (let env = (case env_arg of None \<Rightarrow> process_env | Some e \<Rightarrow> e);
          (errors, values) = validateEnv_loop JSON_parse env schema ([], Map.empty)
      in \<lparr>valid = (length errors = 0), errors = errors, values = values\<rparr>)"

section \<open>Notions of the statements\<close>

text \<open>
  A case-insensitive match, said without \<open>toLowerCase\<close>: the two strings have the same
  length and agree position by position, up to the case of the letters A to Z.
\<close>

definition asciiCasePairs :: "(char \<times> char) list" where
  "asciiCasePairs = zip ''ABCDEFGHIJKLMNOPQRSTUVWXYZ'' ''abcdefghijklmnopqrstuvwxyz''"

definition sameLetter :: "char \<Rightarrow> char \<Rightarrow> bool" where
  "sameLetter c d = (c = d \<or> (c, d) \<in> set asciiCasePairs \<or> (d, c) \<in> set asciiCasePairs)"

definition matchesIgnoringCase :: "string \<Rightarrow> string \<Rightarrow> bool" where
  "matchesIgnoringCase v w = list_all2 sameLetter v w"

text \<open>
  Two error records that agree on key, expected descriptor and received raw value, and on
  the reason too unless both report a required variable as missing, each in the wording of
  its validator.
\<close>

definition sameButMissingWording :: "ValidationError \<Rightarrow> ValidationError \<Rightarrow> bool" where
  "sameButMissingWording e1 e2 =
     (key e1 = key e2 \<and> expected e1 = expected e2 \<and> received e1 = received e2 \<and>
      (reason e1 = reason e2 \<or>
       ((received e1 = None \<or> received e1 = Some []) \<and> (\<nexists>b. expected e1 = b @ ''?'') \<and>
        reason e1 = ''Required environment variable '' @ dquote @ key e1 @ dquote @ '' is missing'' \<and>
        reason e2 = ''Required: '' @ dquote @ key e2 @ dquote @ '' is missing'')))"

section \<open>The two loops as one\<close>

text \<open>
  The bodies of the two loops differ in one string. For the proofs both are brought to one
  form: \<open>entry_result\<close> is what one turn of the loop decides for its entry (an error
  record, or the value to store), with the wording of the missing-variable reason as a
  parameter, and \<open>collect\<close> threads \<open>errors\<close> and \<open>values\<close> through the entries.
  \<open>createEnvValidator_loop_collect\<close> and \<open>validateEnv_loop_collect\<close> below show that
  the loops of the source are these.
\<close>

definition missing_createEnvValidator :: "string \<Rightarrow> string" where
  "missing_createEnvValidator k =
     ''Required environment variable '' @ dquote @ k @ dquote @ '' is missing''"

definition missing_validateEnv :: "string \<Rightarrow> string" where
  "missing_validateEnv k = ''Required: '' @ dquote @ k @ dquote @ '' is missing''"

definition entry_result ::
  "(string \<Rightarrow> string) \<Rightarrow> (string \<Rightarrow> 'j option) \<Rightarrow> ProcessEnv \<Rightarrow> string \<times> string \<Rightarrow>
   ValidationError + 'j jsvalue" where
  "entry_result missing JSON_parse penv entry =
     (let k = fst entry; typeStr = snd entry; value = penv k
      in if falsy value \<and> \<not> snd (parseTypeString typeStr) then
           Inl \<lparr>key = k, expected = typeStr, received = value, reason = missing k\<rparr>
         else if falsy value \<and> snd (parseTypeString typeStr) then Inr VUndefined
         else
           let validation = validateValue JSON_parse value (fst (parseTypeString typeStr))
           in if \<not> v_valid validation then
                Inl \<lparr>key = k, expected = typeStr, received = value,
                     reason = reasonOrDefault (v_reason validation)\<rparr>
              else Inr (v_parsed validation))"

fun collect ::
  "(string \<times> string \<Rightarrow> ValidationError + 'v) \<Rightarrow> EnvSchema \<Rightarrow>
   ValidationError list \<times> (string \<rightharpoonup> 'v) \<Rightarrow> ValidationError list \<times> (string \<rightharpoonup> 'v)" where
  "collect f [] st = st"
| "collect f (entry # rest) (errs, vals) =
     (case f entry of
        Inl e \<Rightarrow> collect f rest (errs @ [e], vals)
      | Inr v \<Rightarrow> collect f rest (errs, vals(fst entry \<mapsto> v)))"

definition errors_of ::
  "(string \<times> string \<Rightarrow> ValidationError + 'v) \<Rightarrow> EnvSchema \<Rightarrow> ValidationError list" where
  "errors_of f schema = List.map_filter (\<lambda>entry. case f entry of Inl e \<Rightarrow> Some e | Inr v \<Rightarrow> None) schema"

section \<open>Lemmas\<close>

lemma createEnvValidator_loop_collect:
  "createEnvValidator_loop P penv schema st =
     collect (entry_result missing_createEnvValidator P penv) schema st"
proof (induction schema arbitrary: st)
  case Nil
  show ?case by (cases st) simp
next
  case (Cons entry rest)
  show ?case
    by (cases st; cases entry)
       (simp add: Cons.IH entry_result_def missing_createEnvValidator_def Let_def
          split: prod.splits)
qed

lemma validateEnv_loop_collect:
  "validateEnv_loop P penv schema st =
     collect (entry_result missing_validateEnv P penv) schema st"
proof (induction schema arbitrary: st)
  case Nil
  show ?case by (cases st) simp
next
  case (Cons entry rest)
  show ?case
    by (cases st; cases entry)
       (simp add: Cons.IH entry_result_def missing_validateEnv_def Let_def
          split: prod.splits)
qed

lemma collect_errors:
  "fst (collect f schema (errs, vals)) = errs @ errors_of f schema"
  by (induction schema arbitrary: errs vals)
     (auto simp: errors_of_def List.map_filter_simps split: sum.splits)

lemma collect_values_other:
  "k \<notin> fst ` set schema \<Longrightarrow> snd (collect f schema (errs, vals)) k = vals k"
  by (induction schema arbitrary: errs vals) (auto split: sum.splits)

lemma collect_values_entry:
  "distinct (map fst schema) \<Longrightarrow> (k, t) \<in> set schema \<Longrightarrow>
   snd (collect f schema (errs, vals)) k =
     (case f (k, t) of Inl e \<Rightarrow> vals k | Inr v \<Rightarrow> Some v)"
proof (induction schema arbitrary: errs vals)
  case Nil
  then show ?case by simp
next
  case (Cons entry rest)
  show ?case
  proof (cases "entry = (k, t)")
    case True
    with Cons.prems have "k \<notin> fst ` set rest" by auto
    with True show ?thesis
      by (auto simp: collect_values_other split: sum.splits)
  next
    case False
    with Cons.prems have in_rest: "(k, t) \<in> set rest" and d: "distinct (map fst rest)"
      and ne: "fst entry \<noteq> k"
      by (auto simp: rev_image_eqI)
    show ?thesis
      using Cons.IH [OF d in_rest] ne by (auto split: sum.splits)
  qed
qed

lemma errors_of_filter_key:
  assumes keys: "\<And>entry e. f entry = Inl e \<Longrightarrow> key e = fst entry"
    and d: "distinct (map fst schema)" and m: "(k, t) \<in> set schema"
  shows "filter (\<lambda>e. key e = k) (errors_of f schema) =
           (case f (k, t) of Inl e \<Rightarrow> [e] | Inr v \<Rightarrow> [])"
  using d m
proof (induction schema)
  case Nil
  then show ?case by simp
next
  case (Cons entry rest)
  have none: "filter (\<lambda>e. key e = k) (errors_of f xs) = []" if "k \<notin> fst ` set xs" for xs
    using that
    by (induction xs) (auto simp: errors_of_def List.map_filter_simps dest: keys split: sum.splits)
  show ?case
  proof (cases "entry = (k, t)")
    case True
    with Cons.prems have "k \<notin> fst ` set rest" by auto
    from none [OF this] True show ?thesis
      by (auto simp: errors_of_def List.map_filter_simps dest: keys split: sum.splits)
  next
    case False
    with Cons.prems have in_rest: "(k, t) \<in> set rest" and d: "distinct (map fst rest)"
      and ne: "fst entry \<noteq> k"
      by (auto simp: rev_image_eqI)
    have "filter (\<lambda>e. key e = k) (errors_of f (entry # rest)) =
            filter (\<lambda>e. key e = k) (errors_of f rest)"
      using ne by (auto simp: errors_of_def List.map_filter_simps dest: keys split: sum.splits)
    with Cons.IH [OF d in_rest] show ?thesis by simp
  qed
qed


lemma entry_result_Inl:
  "entry_result m P penv (k, t) = Inl e \<Longrightarrow>
     key e = k \<and> expected e = t \<and> received e = penv k"
  by (auto simp: entry_result_def Let_def split: if_splits)

lemma entry_result_key:
  "entry_result m P penv entry = Inl e \<Longrightarrow> key e = fst entry"
  by (cases entry) (auto dest: entry_result_Inl)

lemma parseTypeString_optional:
  "snd (parseTypeString t) = (t \<noteq> [] \<and> last t = CHR ''?'')"
  by (simp add: parseTypeString_def endsWith_def Let_def)




lemma of_char_toLowerCase_char:
  "(of_char (toLowerCase_char c) :: nat) =
     (if (65 \<le> (of_char c :: nat) \<and> (of_char c :: nat) \<le> 90) \<or>
         (192 \<le> (of_char c :: nat) \<and> (of_char c :: nat) \<le> 222 \<and> (of_char c :: nat) \<noteq> 215)
      then of_char c + 32 else of_char c)"
  by (auto simp: toLowerCase_char_def Let_def)

lemma toLowerCase_char_eq_lower:
  assumes "(of_char d :: nat) = n" and "97 \<le> n" and "n \<le> 122"
    and "(of_char u :: nat) + 32 = n"
  shows "(toLowerCase_char c = d) = (c = d \<or> c = u)"
proof -
  have "(toLowerCase_char c = d) = ((of_char (toLowerCase_char c) :: nat) = of_char d)"
    by (simp only: of_char_eq_iff)
  also have "\<dots> = ((of_char c :: nat) = of_char d \<or> (of_char c :: nat) = of_char u)"
    unfolding of_char_toLowerCase_char using assms by (simp del: of_char_eq_iff) linarith
  finally show ?thesis by (simp only: of_char_eq_iff)
qed

lemma toLowerCase_char_letters:
  "(toLowerCase_char c = CHR ''t'') = (c = CHR ''t'' \<or> c = CHR ''T'')"
  "(toLowerCase_char c = CHR ''r'') = (c = CHR ''r'' \<or> c = CHR ''R'')"
  "(toLowerCase_char c = CHR ''u'') = (c = CHR ''u'' \<or> c = CHR ''U'')"
  "(toLowerCase_char c = CHR ''e'') = (c = CHR ''e'' \<or> c = CHR ''E'')"
  "(toLowerCase_char c = CHR ''f'') = (c = CHR ''f'' \<or> c = CHR ''F'')"
  "(toLowerCase_char c = CHR ''a'') = (c = CHR ''a'' \<or> c = CHR ''A'')"
  "(toLowerCase_char c = CHR ''l'') = (c = CHR ''l'' \<or> c = CHR ''L'')"
  "(toLowerCase_char c = CHR ''s'') = (c = CHR ''s'' \<or> c = CHR ''S'')"
  by (rule toLowerCase_char_eq_lower; simp)+

lemma sameLetter_letters:
  "sameLetter c (CHR ''t'') = (c = CHR ''t'' \<or> c = CHR ''T'')"
  "sameLetter c (CHR ''r'') = (c = CHR ''r'' \<or> c = CHR ''R'')"
  "sameLetter c (CHR ''u'') = (c = CHR ''u'' \<or> c = CHR ''U'')"
  "sameLetter c (CHR ''e'') = (c = CHR ''e'' \<or> c = CHR ''E'')"
  "sameLetter c (CHR ''f'') = (c = CHR ''f'' \<or> c = CHR ''F'')"
  "sameLetter c (CHR ''a'') = (c = CHR ''a'' \<or> c = CHR ''A'')"
  "sameLetter c (CHR ''l'') = (c = CHR ''l'' \<or> c = CHR ''L'')"
  "sameLetter c (CHR ''s'') = (c = CHR ''s'' \<or> c = CHR ''S'')"
  by (auto simp: sameLetter_def asciiCasePairs_def)

lemma toLowerCase_true: "(toLowerCase v = ''true'') = matchesIgnoringCase v ''true''"
  by (simp add: toLowerCase_def matchesIgnoringCase_def map_eq_Cons_conv list_all2_Cons2
      toLowerCase_char_letters sameLetter_letters)

lemma toLowerCase_false: "(toLowerCase v = ''false'') = matchesIgnoringCase v ''false''"
  by (simp add: toLowerCase_def matchesIgnoringCase_def map_eq_Cons_conv list_all2_Cons2
      toLowerCase_char_letters sameLetter_letters)








lemma validateEnv_errors:
  "errors (validateEnv pe P schema ea) =
     fst (validateEnv_loop P (case ea of None \<Rightarrow> pe | Some e \<Rightarrow> e) schema ([], Map.empty))"
  by (simp add: validateEnv_def split: prod.splits)

lemma validateEnv_values:
  "values (validateEnv pe P schema ea) =
     snd (validateEnv_loop P (case ea of None \<Rightarrow> pe | Some e \<Rightarrow> e) schema ([], Map.empty))"
  by (simp add: validateEnv_def split: prod.splits)







lemma ends_with_question: "(\<exists>b. t = b @ ''?'') = (t \<noteq> [] \<and> last t = CHR ''?'')"
  by (metis append_butlast_last_id last_snoc snoc_eq_iff_butlast)

lemma entry_result_rel:
  "rel_sum sameButMissingWording (=)
     (entry_result missing_createEnvValidator P penv entry)
     (entry_result missing_validateEnv P penv entry)"
  by (cases entry)
     (auto simp: entry_result_def Let_def sameButMissingWording_def falsy_def
        parseTypeString_optional ends_with_question missing_createEnvValidator_def
        missing_validateEnv_def)

lemma collect_rel:
  assumes "\<And>entry. rel_sum R (=) (f entry) (g entry)"
  shows "list_all2 R (errors_of f schema) (errors_of g schema)
       \<and> snd (collect f schema (es, vals)) = snd (collect g schema (es', vals))"
proof (induction schema arbitrary: es es' vals)
  case Nil
  show ?case by (simp add: errors_of_def)
next
  case (Cons entry rest)
  from assms [of entry] Cons.IH show ?case
    by (cases "f entry"; cases "g entry") (auto simp: errors_of_def)
qed

lemma loops_agree:
  "list_all2 sameButMissingWording
     (fst (createEnvValidator_loop P penv schema ([], Map.empty)))
     (fst (validateEnv_loop P penv schema ([], Map.empty)))
 \<and> snd (createEnvValidator_loop P penv schema ([], Map.empty)) =
     snd (validateEnv_loop P penv schema ([], Map.empty))"
  using collect_rel [of sameButMissingWording "entry_result missing_createEnvValidator P penv"
      "entry_result missing_validateEnv P penv" schema "[]" Map.empty "[]", OF entry_result_rel]
  by (simp add: createEnvValidator_loop_collect validateEnv_loop_collect collect_errors)






lemma loops_at_entry:
  assumes d: "distinct (map fst schema)" and m: "(k, t) \<in> set schema"
  shows "filter (\<lambda>e. key e = k) (fst (collect (entry_result m' P penv) schema ([], Map.empty))) =
           (case entry_result m' P penv (k, t) of Inl e \<Rightarrow> [e] | Inr v \<Rightarrow> [])"
    and "snd (collect (entry_result m' P penv) schema ([], Map.empty)) k =
           (case entry_result m' P penv (k, t) of Inl e \<Rightarrow> None | Inr v \<Rightarrow> Some v)"
proof -
  let ?f = "entry_result m' P penv"
  have keys: "\<And>entry e. ?f entry = Inl e \<Longrightarrow> key e = fst entry"
    by (rule entry_result_key)
  show "filter (\<lambda>e. key e = k) (fst (collect ?f schema ([], Map.empty))) =
           (case ?f (k, t) of Inl e \<Rightarrow> [e] | Inr v \<Rightarrow> [])"
    using errors_of_filter_key [of ?f, OF keys d m] by (simp add: collect_errors)
  show "snd (collect ?f schema ([], Map.empty)) k =
           (case ?f (k, t) of Inl e \<Rightarrow> None | Inr v \<Rightarrow> Some v)"
    using collect_values_entry [OF d m, of ?f "[]" Map.empty] by simp
qed

lemmas eval_defs = validateEnv_def parseTypeString_def endsWith_def falsy_def validateValue_def
  reasonOrDefault_def isNaN_def Let_def

section \<open>The claims\<close>



text \<open>
  Claim C2. Coercing a non-empty string to \<open>boolean\<close>: a string that matches \<open>true\<close>
  whatever the case of its letters, or is \<open>1\<close>, gives true; otherwise one that matches
  \<open>false\<close>, or is \<open>0\<close>, gives false; every other string fails, and the reason quotes the
  string and names the four accepted forms. So \<open>TRUE\<close> gives true and \<open>maybe\<close> fails.
\<close>

theorem boolean_coercion:
  "(v \<noteq> [] \<longrightarrow>
     validateValue P (Some v) ''boolean'' =
       (if matchesIgnoringCase v ''true'' \<or> v = ''1'' then
          \<lparr>v_valid = True, v_parsed = VBoolean True, v_reason = None\<rparr>
        else if matchesIgnoringCase v ''false'' \<or> v = ''0'' then
          \<lparr>v_valid = True, v_parsed = VBoolean False, v_reason = None\<rparr>
        else
          \<lparr>v_valid = False, v_parsed = VUndefined,
           v_reason = Some (dquote @ v @ dquote @
             '' is not a valid boolean (use 'true', 'false', '1', or '0')'')\<rparr>))
 \<and> validateValue P (Some ''TRUE'') ''boolean'' =
       \<lparr>v_valid = True, v_parsed = VBoolean True, v_reason = None\<rparr>
 \<and> validateValue P (Some ''maybe'') ''boolean'' =
       \<lparr>v_valid = False, v_parsed = VUndefined,
        v_reason = Some (dquote @ ''maybe'' @ dquote @
          '' is not a valid boolean (use 'true', 'false', '1', or '0')'')\<rparr>"
proof -
  have general: "validateValue P (Some v) ''boolean'' =
       (if matchesIgnoringCase v ''true'' \<or> v = ''1'' then
          \<lparr>v_valid = True, v_parsed = VBoolean True, v_reason = None\<rparr>
        else if matchesIgnoringCase v ''false'' \<or> v = ''0'' then
          \<lparr>v_valid = True, v_parsed = VBoolean False, v_reason = None\<rparr>
        else
          \<lparr>v_valid = False, v_parsed = VUndefined,
           v_reason = Some (dquote @ v @ dquote @
             '' is not a valid boolean (use 'true', 'false', '1', or '0')'')\<rparr>)"
    if "v \<noteq> []" for v
    using that by (simp add: validateValue_def toLowerCase_true toLowerCase_false)
  have upper: "validateValue P (Some ''TRUE'') ''boolean'' =
       \<lparr>v_valid = True, v_parsed = VBoolean True, v_reason = None\<rparr>"
    using general [of "''TRUE''"]
    by (simp add: matchesIgnoringCase_def sameLetter_def asciiCasePairs_def)
  have maybe: "validateValue P (Some ''maybe'') ''boolean'' =
       \<lparr>v_valid = False, v_parsed = VUndefined,
        v_reason = Some (dquote @ ''maybe'' @ dquote @
          '' is not a valid boolean (use 'true', 'false', '1', or '0')'')\<rparr>"
    using general [of "''maybe''"]
    by (simp add: matchesIgnoringCase_def sameLetter_def asciiCasePairs_def)
  from general upper maybe show ?thesis by blast
qed

theorem boolean_coercion_witness:
  "validateValue (\<lambda>s. None :: unit option) (Some ''False'') ''boolean'' =
     \<lparr>v_valid = True, v_parsed = VBoolean False, v_reason = None\<rparr>
 \<and> validateValue (\<lambda>s. None :: unit option) (Some ''1'') ''boolean'' =
     \<lparr>v_valid = True, v_parsed = VBoolean True, v_reason = None\<rparr>
 \<and> validateValue (\<lambda>s. None :: unit option) (Some ''yes'') ''boolean'' =
     \<lparr>v_valid = False, v_parsed = VUndefined,
      v_reason = Some (dquote @ ''yes'' @ dquote @
        '' is not a valid boolean (use 'true', 'false', '1', or '0')'')\<rparr>"
  using boolean_coercion [of "''False''" "\<lambda>s. None :: unit option"]
    boolean_coercion [of "''1''" "\<lambda>s. None :: unit option"]
    boolean_coercion [of "''yes''" "\<lambda>s. None :: unit option"]
  by (simp add: matchesIgnoringCase_def sameLetter_def asciiCasePairs_def)





text \<open>
  Claim C5. On the same schema and environment the loop of \<open>createEnvValidator\<close> and
  \<open>validateEnv\<close> end with the same \<open>values\<close>, and with error lists of the same length
  that agree entry by entry on key, expected descriptor and received value and differ at
  most in the wording of the missing-variable reason. With \<open>throwOnError\<close> false,
  \<open>createEnvValidator\<close> never throws its own error: it returns the \<open>values\<close> of
  \<open>validateEnv\<close>, unless a callback is given and throws.
\<close>

theorem layers_agree:
  assumes "throwOnError opts = Some False"
  shows "list_all2 sameButMissingWording
           (fst (createEnvValidator_loop P (case env opts of None \<Rightarrow> pe | Some e \<Rightarrow> e) schema
              ([], Map.empty)))
           (errors (validateEnv pe P schema (env opts)))
       \<and> snd (createEnvValidator_loop P (case env opts of None \<Rightarrow> pe | Some e \<Rightarrow> e) schema
              ([], Map.empty)) = values (validateEnv pe P schema (env opts))
       \<and> (case result (createEnvValidator pe P schema opts) of
             Inr vals \<Rightarrow> vals = values (validateEnv pe P schema (env opts))
           | Inl (Error msg) \<Rightarrow> False
           | Inl (CallbackThrew x) \<Rightarrow>
               (\<exists>callback errs. onError opts = Some callback \<and> callback errs = Some x))"
proof -
  let ?penv = "case env opts of None \<Rightarrow> pe | Some e \<Rightarrow> e"
  obtain errs vals where l: "createEnvValidator_loop P ?penv schema ([], Map.empty) = (errs, vals)"
    by (cases "createEnvValidator_loop P ?penv schema ([], Map.empty)")
  from loops_agree [of P ?penv schema] l
  have 1: "list_all2 sameButMissingWording errs (errors (validateEnv pe P schema (env opts)))"
    and 2: "vals = values (validateEnv pe P schema (env opts))"
    by (simp_all add: validateEnv_errors validateEnv_values)
  show ?thesis
    using 1 2 assms l
    by (auto simp: createEnvValidator_def Let_def split: option.splits)
qed

theorem layers_agree_witness:
  "result (createEnvValidator Map.empty (\<lambda>s. None :: unit option)
      [(''PORT'', ''number''), (''API_KEY'', ''string'')]
      \<lparr>throwOnError = Some False, env = Some [''PORT'' \<mapsto> ''invalid''],
       onError = (None :: (ValidationError list \<Rightarrow> unit option) option)\<rparr>) =
     Inr (values (validateEnv Map.empty (\<lambda>s. None :: unit option)
      [(''PORT'', ''number''), (''API_KEY'', ''string'')] (Some [''PORT'' \<mapsto> ''invalid''])))
 \<and> length (fst (createEnvValidator_loop (\<lambda>s. None :: unit option) [''PORT'' \<mapsto> ''invalid'']
      [(''PORT'', ''number''), (''API_KEY'', ''string'')] ([], Map.empty))) =
     length (errors (validateEnv Map.empty (\<lambda>s. None :: unit option)
      [(''PORT'', ''number''), (''API_KEY'', ''string'')] (Some [''PORT'' \<mapsto> ''invalid''])))"
  using layers_agree [of "\<lparr>throwOnError = Some False, env = Some [''PORT'' \<mapsto> ''invalid''],
       onError = (None :: (ValidationError list \<Rightarrow> unit option) option)\<rparr>"
      "\<lambda>s. None :: unit option" Map.empty "[(''PORT'', ''number''), (''API_KEY'', ''string'')]"]
  by (auto dest: list_all2_lengthD split: sum.splits thrown.splits)

text \<open>
  Claim C6. With a callback \<open>onError\<close>: when the loop has recorded no error the callback
  is not called and \<open>values\<close> is returned; when it has recorded one or more, the callback
  is called exactly once, with the whole error list in order, whatever \<open>throwOnError\<close>
  is, and only then the call ends: with what the callback threw, or with \<open>values\<close> when
  \<open>throwOnError\<close> is false, or else with the composite error.
\<close>

theorem onError_called_once:
  assumes "onError opts = Some callback"
  shows "(let penv = (case env opts of None \<Rightarrow> pe | Some e \<Rightarrow> e);
              errs = fst (createEnvValidator_loop P penv schema ([], Map.empty));
              vals = snd (createEnvValidator_loop P penv schema ([], Map.empty))
          in calls (createEnvValidator pe P schema opts) = (if errs = [] then [] else [errs])
           \<and> result (createEnvValidator pe P schema opts) =
               (if errs = [] then Inr vals
                else case callback errs of
                       Some x \<Rightarrow> Inl (CallbackThrew x)
                     | None \<Rightarrow>
                         if throwOnError opts = Some False then Inr vals
                         else Inl (Error (''Environment validation failed:'' @ newline @
                                join newline
                                  (map (\<lambda>e. ''  '' @ bullet @ '' '' @ key e @ '': '' @ reason e)
                                     errs)))))"
  using assms
  by (auto simp: createEnvValidator_def Let_def split: option.splits prod.splits)

theorem onError_called_once_witness:
  "calls (createEnvValidator Map.empty (\<lambda>s. None :: unit option) [(''API_KEY'', ''string'')]
      \<lparr>throwOnError = None, env = Some Map.empty,
       onError = Some (\<lambda>errs. None :: unit option)\<rparr>) =
     [[\<lparr>key = ''API_KEY'', expected = ''string'', received = None,
        reason = ''Required environment variable '' @ dquote @ ''API_KEY'' @ dquote @
          '' is missing''\<rparr>]]
 \<and> result (createEnvValidator Map.empty (\<lambda>s. None :: unit option) [(''API_KEY'', ''string'')]
      \<lparr>throwOnError = None, env = Some Map.empty,
       onError = Some (\<lambda>errs. None :: unit option)\<rparr>) =
     Inl (Error (''Environment validation failed:'' @ newline @ ''  '' @ bullet @
       '' API_KEY: Required environment variable '' @ dquote @ ''API_KEY'' @ dquote @
       '' is missing''))"
  using onError_called_once [of "\<lparr>throwOnError = None, env = Some Map.empty,
       onError = Some (\<lambda>errs. None :: unit option)\<rparr>" "\<lambda>errs. None :: unit option"
      Map.empty "\<lambda>s. None :: unit option" "[(''API_KEY'', ''string'')]"]
  by (simp add: eval_defs)





text \<open>
  Claim C9. \<open>parseTypeString\<close> of a descriptor that ends with \<open>?\<close> is what stands before
  that last character, and optional; of any other descriptor it is the descriptor itself,
  and not optional. The descriptor \<open>?\<close> has the empty base tag, which fails coercion as
  an unknown type: a schema entry \<open>?\<close> whose raw value is a non-empty string gets the
  error \<open>Unknown type: \<close> and no value, in both validators.
\<close>

theorem parseTypeString_question:
  "parseTypeString (b @ ''?'') = (b, True)
 \<and> ((\<nexists>b. s = b @ ''?'') \<longrightarrow> parseTypeString s = (s, False))
 \<and> parseTypeString ''?'' = ([], True)
 \<and> (v \<noteq> [] \<longrightarrow>
      validateValue P (Some v) (fst (parseTypeString ''?'')) =
        \<lparr>v_valid = False, v_parsed = VUndefined, v_reason = Some ''Unknown type: ''\<rparr>)
 \<and> (distinct (map fst schema) \<and> (k, ''?'') \<in> set schema \<and> penv k = Some v \<and> v \<noteq> [] \<longrightarrow>
      filter (\<lambda>e. key e = k) (errors (validateEnv pe P schema (Some penv))) =
        [\<lparr>key = k, expected = ''?'', received = Some v, reason = ''Unknown type: ''\<rparr>]
    \<and> values (validateEnv pe P schema (Some penv)) k = None
    \<and> filter (\<lambda>e. key e = k) (fst (createEnvValidator_loop P penv schema ([], Map.empty))) =
        [\<lparr>key = k, expected = ''?'', received = Some v, reason = ''Unknown type: ''\<rparr>]
    \<and> snd (createEnvValidator_loop P penv schema ([], Map.empty)) k = None)"
proof -
  have 1: "parseTypeString (b @ ''?'') = (b, True)"
    by (simp add: parseTypeString_def endsWith_def)
  have 2: "(\<nexists>b. s = b @ ''?'') \<longrightarrow> parseTypeString s = (s, False)"
    by (simp add: ends_with_question parseTypeString_def endsWith_def)
  have 3: "parseTypeString ''?'' = ([], True)"
    by (simp add: parseTypeString_def endsWith_def)
  have 4: "validateValue P (Some v) (fst (parseTypeString ''?'')) =
        \<lparr>v_valid = False, v_parsed = VUndefined, v_reason = Some ''Unknown type: ''\<rparr>"
    if "v \<noteq> []"
    using that by (simp add: 3 validateValue_def)
  have 5: "entry_result m P penv (k, ''?'') =
             Inl \<lparr>key = k, expected = ''?'', received = Some v, reason = ''Unknown type: ''\<rparr>"
    if "penv k = Some v" "v \<noteq> []" for m
    using that 4 by (simp add: entry_result_def falsy_def reasonOrDefault_def 3)
  show ?thesis
    using 1 2 3 4
    by (auto simp: validateEnv_errors validateEnv_values createEnvValidator_loop_collect
        validateEnv_loop_collect loops_at_entry 5)
qed

theorem parseTypeString_question_witness:
  "parseTypeString ''number?'' = (''number'', True)
 \<and> parseTypeString ''number'' = (''number'', False)
 \<and> filter (\<lambda>e. key e = ''K'') (errors (validateEnv Map.empty (\<lambda>s. None :: unit option)
      [(''K'', ''?'')] (Some [''K'' \<mapsto> ''x'']))) =
     [\<lparr>key = ''K'', expected = ''?'', received = Some ''x'', reason = ''Unknown type: ''\<rparr>]"
  using parseTypeString_question [of "''number''" "''number''" "''x''" "\<lambda>s. None :: unit option"
      "[(''K'', ''?'')]" "''K''" "[''K'' \<mapsto> ''x'']" Map.empty]
  by (simp add: ends_with_question)



end
